theory Spec2Isabelle
  imports Complex_Main "HOL-Library.Sublist" "HOL-Library.List_Lexorder"
begin

section \<open>Python values of the OPD dashboard\<close>

text \<open>
  A Python \<open>str\<close> is a sequence of Unicode code points, so it is modelled as a list of
  naturals; \<open>py\<close> turns an ASCII literal of the script into that form.
\<close>

type_synonym pystr = "nat list"

definition py :: "string \<Rightarrow> pystr" where
  "py s = map of_char s"

text \<open>
  \<open>datetime.date\<close>, as returned by \<open>st.date_input\<close>.
\<close>

record date =
  year :: nat
  month :: nat
  day :: nat

text \<open>
  The values that travel through the script: text, integers (the age), calendar dates
  (the date widgets) and the missing-cell marker of a data frame.
\<close>

datatype pyval = PyStr pystr | PyInt int | PyDate date | PyNaN

datatype py_error = NameError | KeyError | IndexError

text \<open>
  Python's \<open>==\<close> on these values: values of different types are never equal, and a
  missing cell equals nothing, itself included.
\<close>

fun py_eq :: "pyval \<Rightarrow> pyval \<Rightarrow> bool" where
  "py_eq (PyStr a) (PyStr b) = (a = b)"
| "py_eq (PyInt a) (PyInt b) = (a = b)"
| "py_eq (PyDate a) (PyDate b) = (a = b)"
| "py_eq _ _ = False"

text \<open>
  A step that may raise, followed by the rest of the computation: an exception ends it.
\<close>

definition bind_err :: "py_error + 'a \<Rightarrow> ('a \<Rightarrow> py_error + 'b) \<Rightarrow> py_error + 'b" where
  "bind_err m f = (case m of Inl e \<Rightarrow> Inl e | Inr v \<Rightarrow> f v)"

subsection \<open>\<open>str(opd_date)\<close>: the ISO form of a date\<close>

fun dec :: "nat \<Rightarrow> pystr" where
  "dec n = (if n < 10 then [48 + n] else dec (n div 10) @ [48 + n mod 10])"

definition zfill :: "nat \<Rightarrow> pystr \<Rightarrow> pystr" where
  "zfill w s = replicate (w - length s) 48 @ s"

definition str_date :: "date \<Rightarrow> pystr" where
  "str_date d = zfill 4 (dec (year d)) @ [45] @ zfill 2 (dec (month d)) @ [45] @ zfill 2 (dec (day d))"

section \<open>The record store\<close>

text \<open>
  The sheet: a header row and the data rows below it, oldest first.
\<close>

record sheet =
  header :: "pystr list"
  data_rows :: "pyval list list"

type_synonym pyrecord = "(pystr \<times> pyval) list"

text \<open>
  Modelled from the spec: \<open>sheet.append_row\<close> and \<open>sheet.get_all_records\<close> belong to the
  spreadsheet client, which is not part of the source. Section 4.2 of the specification
  gives their contract: \<open>append\<close> writes one new row as the last row of the store;
  \<open>fetch_all\<close> returns every data row, header excluded, as a mapping from column name to
  value, in store order. A row shorter than the header reads as blank text in the cells
  it lacks.
\<close>

definition append_row :: "sheet \<Rightarrow> pyval list \<Rightarrow> sheet" where
  "append_row sh vals = sh\<lparr>data_rows := data_rows sh @ [vals]\<rparr>"

definition get_all_records :: "sheet \<Rightarrow> pyrecord list" where
  "get_all_records sh =
     map (\<lambda>r. zip (header sh) (r @ replicate (length (header sh) - length r) (PyStr [])))
       (data_rows sh)"

text \<open>
  The header the overview reads by name (section 6 of the specification).
\<close>

definition schema :: "pystr list" where
  "schema = [py ''Date'', py ''Name'', py ''Age'', py ''Gender'', py ''Prakriti'',
             py ''Complaint'', py ''Diagnosis'', py ''FollowUp'']"

text \<open>
  What a cell read from the sheet can be: text or a whole number. Never a date object
  and never a missing value; fractional numbers are left out of the model.
\<close>

fun stored_value :: "pyval \<Rightarrow> bool" where
  "stored_value (PyStr _) = True"
| "stored_value (PyInt _) = True"
| "stored_value _ = False"

definition stored_sheet :: "sheet \<Rightarrow> bool" where
  "stored_sheet sh = (header sh = schema \<and> list_all (list_all stored_value) (data_rows sh))"

section \<open>The entry form\<close>

record opd_form =
  opd_date :: date
  patient_name :: pystr
  age :: int
  gender :: pystr
  prakriti :: pystr
  complaint :: pystr
  diagnosis :: pystr
  follow_up :: pystr

text \<open>
  The list handed to \<open>append_row\<close> on "Save Entry" (lines 72 to 81).
\<close>

definition form_row :: "opd_form \<Rightarrow> pyval list" where
  "form_row f =
     [PyStr (str_date (opd_date f)), PyStr (patient_name f), PyInt (age f), PyStr (gender f),
      PyStr (prakriti f), PyStr (complaint f), PyStr (diagnosis f), PyStr (follow_up f)]"

text \<open>
  What the input widgets can produce: a proper calendar date, an age within the bounds
  of the number input, and one of the listed options of each select box.
\<close>

definition valid_date :: "date \<Rightarrow> bool" where
  "valid_date d = (1 \<le> year d \<and> year d \<le> 9999 \<and> 1 \<le> month d \<and> month d \<le> 12 \<and>
                   1 \<le> day d \<and> day d \<le> 31)"

definition valid_form :: "opd_form \<Rightarrow> bool" where
  "valid_form f =
     (valid_date (opd_date f) \<and> 0 \<le> age f \<and> age f \<le> 120 \<and>
      gender f \<in> set [py ''Male'', py ''Female'', py ''Other''] \<and>
      prakriti f \<in> set [py ''Vata'', py ''Pitta'', py ''Kapha'', py ''Vata-Pitta'',
                         py ''Pitta-Kapha'', py ''Vata-Kapha''] \<and>
      follow_up f \<in> set [py ''Yes'', py ''No''])"

section \<open>Data frames\<close>

text \<open>
  A data frame keeps its column labels apart from its rows, so a frame whose rows have
  all been filtered away still has its columns.
\<close>

record dataframe =
  columns :: "pystr list"
  rows :: "pyrecord list"

definition first_seen :: "'a list \<Rightarrow> 'a list" where
  "first_seen xs = rev (remdups (rev xs))"

text \<open>
  \<open>pd.DataFrame(records)\<close>: the columns are the keys of the dictionaries in order of
  first appearance.
\<close>

definition DataFrame :: "pyrecord list \<Rightarrow> dataframe" where
  "DataFrame recs = \<lparr>columns = first_seen (concat (map (map fst) recs)), rows = recs\<rparr>"

definition cell :: "pyrecord \<Rightarrow> pystr \<Rightarrow> pyval" where
  "cell r c = (case map_of r c of Some v \<Rightarrow> v | None \<Rightarrow> PyNaN)"

text \<open>
  \<open>df.to_dict(orient="records")\<close>: one dictionary per row, keyed by the columns.
\<close>

definition to_dict_records :: "dataframe \<Rightarrow> pyrecord list" where
  "to_dict_records df = map (\<lambda>r. map (\<lambda>c. (c, cell r c)) (columns df)) (rows df)"

text \<open>
  \<open>df.empty\<close>: no rows or no columns.
\<close>

definition df_empty :: "dataframe \<Rightarrow> bool" where
  "df_empty df = (rows df = [] \<or> columns df = [])"

text \<open>
  \<open>df[c]\<close>: the column labelled \<open>c\<close>; a label the frame does not have raises.
\<close>

definition column :: "dataframe \<Rightarrow> pystr \<Rightarrow> py_error + pyval list" where
  "column df c = (if c \<in> set (columns df) then Inr (map (\<lambda>r. cell r c) (rows df))
                  else Inl KeyError)"

text \<open>
  \<open>df[df[c] == v]\<close>: the rows whose cell in column \<open>c\<close> equals \<open>v\<close>.
\<close>

definition select_eq :: "dataframe \<Rightarrow> pystr \<Rightarrow> pyval \<Rightarrow> py_error + dataframe" where
  "select_eq df c v = (if c \<in> set (columns df)
                       then Inr (df\<lparr>rows := filter (\<lambda>r. py_eq (cell r c) v) (rows df)\<rparr>)
                       else Inl KeyError)"

section \<open>Series operations used by the overview\<close>

definition dropna :: "pyval list \<Rightarrow> pyval list" where
  "dropna col = filter (\<lambda>v. v \<noteq> PyNaN) col"

text \<open>
  \<open>s.value_counts()\<close>: every distinct value of the column with the number of its
  occurrences, missing cells left out. The entries are listed in order of first
  appearance; the library then reorders them by falling count, an order that neither the
  lookup by key nor the bar chart reads.
\<close>

definition value_counts :: "pyval list \<Rightarrow> (pyval \<times> nat) list" where
  "value_counts col = map (\<lambda>v. (v, count_list (dropna col) v)) (first_seen (dropna col))"

text \<open>
  \<open>counts.get(k, d)\<close>: the count stored under \<open>k\<close>, or the default.
\<close>

definition series_get :: "(pyval \<times> nat) list \<Rightarrow> pyval \<Rightarrow> nat \<Rightarrow> nat" where
  "series_get counts k d = (case map_of counts k of Some c \<Rightarrow> c | None \<Rightarrow> d)"

fun is_str :: "pyval \<Rightarrow> bool" where
  "is_str (PyStr _) = True"
| "is_str _ = False"

fun is_int :: "pyval \<Rightarrow> bool" where
  "is_int (PyInt _) = True"
| "is_int _ = False"

fun the_str :: "pyval \<Rightarrow> pystr" where
  "the_str (PyStr s) = s"
| "the_str _ = []"

fun the_int :: "pyval \<Rightarrow> int" where
  "the_int (PyInt i) = i"
| "the_int _ = 0"

text \<open>
  \<open>s.mode()\<close>: the values that occur most often, missing cells left out, in sorted order
  when the values can be compared with each other (all text, by code points, or all
  integers) and as found otherwise.
\<close>

definition modes :: "pyval list \<Rightarrow> pyval list" where
  "modes col =
     (let counts = value_counts col; top = fold max (map snd counts) 0
      in map fst (filter (\<lambda>(v, n). n = top) counts))"

definition sort_modes :: "pyval list \<Rightarrow> pyval list" where
  "sort_modes ms =
     (if list_all is_str ms then map PyStr (sort (map the_str ms))
      else if list_all is_int ms then map PyInt (sort (map the_int ms))
      else ms)"

text \<open>
  \<open>s.mode()[0]\<close>: the first of the modes; on a column without values there is none
  and the lookup of label 0 raises.
\<close>

definition mode0 :: "pyval list \<Rightarrow> py_error + pyval" where
  "mode0 col = (case sort_modes (modes col) of [] \<Rightarrow> Inl KeyError | v # _ \<Rightarrow> Inr v)"

section \<open>The overview\<close>

text \<open>
  Lines 106 and 107: with a date selected, keep the rows whose \<open>Date\<close> cell equals it.
\<close>

definition date_filter :: "dataframe \<Rightarrow> date option \<Rightarrow> py_error + dataframe" where
  "date_filter df selected_date =
     (case selected_date of None \<Rightarrow> Inr df
      | Some d \<Rightarrow> select_eq df (py ''Date'') (PyDate d))"

text \<open>
  Line 113: \<open>df["FollowUp"].value_counts().get("Yes", 0)\<close>.
\<close>

definition follow_up_metric :: "dataframe \<Rightarrow> py_error + nat" where
  "follow_up_metric df =
     bind_err (column df (py ''FollowUp''))
       (\<lambda>col. Inr (series_get (value_counts col) (PyStr (py ''Yes'')) 0))"

text \<open>
  Lines 114 and 115: \<open>df[c].mode()[0] if not df.empty else "-"\<close>. The column is read only
  when the frame is not empty.
\<close>

definition top_metric :: "dataframe \<Rightarrow> pystr \<Rightarrow> py_error + pyval" where
  "top_metric df c =
     (if \<not> df_empty df then bind_err (column df c) mode0 else Inr (PyStr (py ''-'')))"

text \<open>
  Lines 123 and 126: the series behind each bar chart.
\<close>

definition chart_counts :: "dataframe \<Rightarrow> pystr \<Rightarrow> py_error + (pyval \<times> nat) list" where
  "chart_counts df c = bind_err (column df c) (\<lambda>col. Inr (value_counts col))"

record snapshot =
  total :: nat
  follow_ups :: nat
  top_diagnosis :: pyval
  top_prakriti :: pyval
  diagnosis_counts :: "(pyval \<times> nat) list"
  prakriti_counts :: "(pyval \<times> nat) list"
  patient_list :: "pyrecord list"

text \<open>
  What the overview shows: the notice that there is no data, or the four metrics, the
  two charts and the table.
\<close>

datatype overview_view = NoData | Shown snapshot

text \<open>
  Lines 109 to 130, on the frame left by the date filter. The elements are computed in
  the order of the script, so the first failing lookup is the one that raises.
\<close>

definition kpis :: "dataframe \<Rightarrow> py_error + snapshot" where
  "kpis df =
     bind_err (follow_up_metric df) (\<lambda>fu.
     bind_err (top_metric df (py ''Diagnosis'')) (\<lambda>td.
     bind_err (top_metric df (py ''Prakriti'')) (\<lambda>tp.
     bind_err (chart_counts df (py ''Diagnosis'')) (\<lambda>dc.
     bind_err (chart_counts df (py ''Prakriti'')) (\<lambda>pc.
       Inr \<lparr>total = length (rows df), follow_ups = fu, top_diagnosis = td,
            top_prakriti = tp, diagnosis_counts = dc, prakriti_counts = pc,
            patient_list = rows df\<rparr>)))))"

text \<open>
  Lines 91 to 130: the overview branch. It returns \<open>opd_json\<close>, taken from the frame
  before any filtering (line 94), together with what is shown.
\<close>

definition overview :: "sheet \<Rightarrow> date option \<Rightarrow> py_error + (pyrecord list \<times> overview_view)" where
  "overview sh selected_date =
     (let records = get_all_records sh;
          df = DataFrame records;
          opd_json = to_dict_records df
      in if df_empty df then Inr (opd_json, NoData)
         else bind_err (date_filter df selected_date) (\<lambda>df'.
              bind_err (kpis df') (\<lambda>snap. Inr (opd_json, Shown snap))))"

text \<open>
  The snapshot shown by an overview, when there is one.
\<close>

definition shown_snapshot :: "py_error + (pyrecord list \<times> overview_view) \<Rightarrow> snapshot option" where
  "shown_snapshot r = (case r of Inl e \<Rightarrow> None | Inr (js, NoData) \<Rightarrow> None
                       | Inr (js, Shown snap) \<Rightarrow> Some snap)"

section \<open>The prompt builder\<close>

definition lines_text :: "pystr list \<Rightarrow> pystr" where
  "lines_text ls = concat (map (\<lambda>l. l @ [10]) ls)"

definition role_statement :: pystr where
  "role_statement = py ''You are assisting an Ayurvedic doctor.''"

definition strict_rules :: "pystr list" where
  "strict_rules =
     [py ''- Do NOT diagnose'',
      py ''- Do NOT suggest medicines'',
      py ''- Do NOT change treatment'',
      py ''- Only summarize and observe patterns'',
      py ''- Use simple, non-alarming language'']"

definition summary_task :: pystr where
  "summary_task = py ''1. Give a short OPD summary + ''"

definition further_tasks :: "pystr list" where
  "further_tasks =
     [py ''2. List most common complaints'',
      py ''3. List common diagnoses'',
      py ''4. Mention prakriti trends'',
      py ''5. Mention follow-up workload'',
      py ''6. How Next week will be?'',
      py ''7. How I can be Prepared?'']"

text \<open>
  Lines 140 to 162. The template is a triple-quoted string that opens with a line break
  and ends every line with one. \<open>{opd_json}\<close> formats the list of dictionaries with
  Python's \<open>str\<close>; that built-in conversion is the parameter \<open>str_of\<close>.
\<close>

definition build_opd_prompt :: "(pyrecord list \<Rightarrow> pystr) \<Rightarrow> pyrecord list \<Rightarrow> pystr \<Rightarrow> pystr" where
  "build_opd_prompt str_of opd_json user_prompt =
     lines_text
       ([[], role_statement, [], py ''STRICT RULES:''] @ strict_rules @
        [[], py ''OPD DATA:'', str_of opd_json, [], py ''TASK:'', summary_task @ user_prompt] @
        further_tasks)"

section \<open>The inference call\<close>

record request =
  model :: pystr
  messages :: "(pystr \<times> pystr) list"
  temperature :: rat

text \<open>
  Lines 180 to 187: the arguments of \<open>client.chat.completions.create\<close>; a message is a
  pair of role and content.
\<close>

definition system_instruction :: pystr where
  "system_instruction = py ''You are assiting ayurvedic doctor for his OPD summary and analysis''"

definition inference_request :: "pystr \<Rightarrow> request" where
  "inference_request prompt =
     \<lparr>model = py ''gpt-4o-mini'',
      messages = [(py ''user'', prompt), (py ''system'', system_instruction)],
      temperature = 3 / 10\<rparr>"

text \<open>
  \<open>str.strip()\<close> removes leading and trailing whitespace, which for a Python string is
  the following set of code points.
\<close>

definition is_space :: "nat \<Rightarrow> bool" where
  "is_space c =
     (c \<in> set [9, 10, 11, 12, 13, 28, 29, 30, 31, 32, 133, 160, 5760, 8232, 8233, 8239,
                8287, 12288] \<or> (8192 \<le> c \<and> c \<le> 8202))"

definition strip :: "pystr \<Rightarrow> pystr" where
  "strip s = rev (dropWhile is_space (rev (dropWhile is_space s)))"

datatype ui = Success | Panel overview_view | Warning pystr | TextArea pystr pystr

text \<open>
  Lines 175 to 194. The service is the function \<open>llm\<close> from a request to the contents of
  the choices of its response. The result lists the requests sent, the elements drawn
  and the exception raised, if any.
\<close>

definition generate_section ::
  "(request \<Rightarrow> pystr list) \<Rightarrow> pystr \<Rightarrow> pystr \<Rightarrow> bool \<Rightarrow> request list \<times> ui list \<times> py_error option" where
  "generate_section llm prompt user_prompt clicked =
     (if clicked
      then (if strip user_prompt = [] then ([], [Warning (py ''Please enter a prompt'')], None)
            else (case llm (inference_request prompt) of
                    [] \<Rightarrow> ([inference_request prompt], [], Some IndexError)
                  | ai_output # _ \<Rightarrow>
                      ([inference_request prompt], [TextArea (py ''AI Response'') ai_output], None)))
      else ([], [], None))"

section \<open>One run of the script\<close>

datatype view = OverviewView | EntryView

record run_inputs =
  sidebar_overview :: bool
  sidebar_entry :: bool
  form :: opd_form
  submitted :: bool
  cancel :: bool
  selected_date :: "date option"
  user_prompt :: pystr
  generate :: bool

record outcome =
  view_after :: view
  sheet_after :: sheet
  page :: "ui list"
  prompt :: "pystr option"
  requests :: "request list"
  raised :: "py_error option"

text \<open>
  Lines 40 to 44: the view the main section sees, after the sidebar buttons.
\<close>

definition active_view :: "view \<Rightarrow> run_inputs \<Rightarrow> view" where
  "active_view v0 inp =
     (let v1 = (if sidebar_overview inp then OverviewView else v0)
      in if sidebar_entry inp then EntryView else v1)"

text \<open>
  The whole script, top to bottom. In the entry branch the name \<open>opd_json\<close> is never
  bound, so its use on line 173 raises; the row written on "Save Entry" stays written.
  Failures of the store and of the service themselves are not modelled.
\<close>

definition render ::
  "(pyrecord list \<Rightarrow> pystr) \<Rightarrow> (request \<Rightarrow> pystr list) \<Rightarrow> sheet \<Rightarrow> view \<Rightarrow> run_inputs \<Rightarrow> outcome" where
  "render str_of llm sh v0 inp =
     (let v = active_view v0 inp
      in if v = EntryView
         then \<lparr>view_after = (if submitted inp \<or> cancel inp then OverviewView else v),
               sheet_after = (if submitted inp then append_row sh (form_row (form inp)) else sh),
               page = (if submitted inp then [Success] else []),
               prompt = None, requests = [], raised = Some NameError\<rparr>
         else (case overview sh (selected_date inp) of
                 Inl e \<Rightarrow>
                   \<lparr>view_after = v, sheet_after = sh, page = [], prompt = None, requests = [],
                    raised = Some e\<rparr>
               | Inr (opd_json, panel) \<Rightarrow>
                   (let p = build_opd_prompt str_of opd_json (user_prompt inp);
                        (reqs, drawn, err) = generate_section llm p (user_prompt inp) (generate inp)
                    in \<lparr>view_after = v, sheet_after = sh, page = Panel panel # drawn,
                        prompt = Some p, requests = reqs, raised = err\<rparr>)))"

section \<open>Sample data\<close>

definition visit :: "nat \<Rightarrow> string \<Rightarrow> string \<Rightarrow> opd_form" where
  "visit dd dx fu =
     \<lparr>opd_date = \<lparr>year = 2024, month = 1, day = dd\<rparr>, patient_name = py ''Asha'', age = 30,
      gender = py ''Female'', prakriti = py ''Vata'', complaint = py ''Cough'',
      diagnosis = py dx, follow_up = py fu\<rparr>"

definition jan1 :: date where
  "jan1 = \<lparr>year = 2024, month = 1, day = 1\<rparr>"

definition empty_store :: sheet where
  "empty_store = \<lparr>header = schema, data_rows = []\<rparr>"

definition scenario_store :: sheet where
  "scenario_store =
     \<lparr>header = schema,
      data_rows = [form_row (visit 1 ''Cold'' ''Yes''), form_row (visit 1 ''Cold'' ''No''),
                   form_row (visit 2 ''Fever'' ''Yes'')]\<rparr>"

text \<open>
  The widget state of a run in which only the overview widgets and the prompt box are
  used: no sidebar button, no form button, no date selected.
\<close>

definition prompt_run :: "pystr \<Rightarrow> bool \<Rightarrow> run_inputs" where
  "prompt_run text clicked =
     \<lparr>sidebar_overview = False, sidebar_entry = False, form = visit 3 ''Cold'' ''No'',
      submitted = False, cancel = False, selected_date = None, user_prompt = text,
      generate = clicked\<rparr>"

section \<open>Counting values\<close>

lemma set_first_seen: "set (first_seen xs) = set xs"
  by (simp add: first_seen_def)

lemma map_of_value_counts:
  "map_of (value_counts col) k =
     (if k \<in> set (dropna col) then Some (count_list (dropna col) k) else None)"
  by (simp add: value_counts_def map_of_map_restrict restrict_map_def set_first_seen)

lemma count_list_dropna: "k \<noteq> PyNaN \<Longrightarrow> count_list (dropna col) k = count_list col k"
  by (induction col) (auto simp: dropna_def)

lemma series_get_value_counts:
  assumes "k \<noteq> PyNaN"
  shows "series_get (value_counts col) k 0 = count_list col k"
proof -
  have same: "count_list (dropna col) k = count_list col k"
    using assms by (rule count_list_dropna)
  show ?thesis
  proof (cases "k \<in> set (dropna col)")
    case True
    then show ?thesis
      by (simp add: series_get_def map_of_value_counts same)
  next
    case False
    then have "count_list (dropna col) k = 0"
      by (rule count_notin)
    with same have "count_list col k = 0"
      by simp
    with False show ?thesis
      by (simp add: series_get_def map_of_value_counts)
  qed
qed

lemma count_list_map_cells:
  "count_list (map f rs) k = length (filter (\<lambda>r. f r = k) rs)"
  by (induction rs) auto

lemma follow_up_metric_counts:
  assumes "py ''FollowUp'' \<in> set (columns df)"
  shows "follow_up_metric df =
           Inr (length (filter (\<lambda>r. cell r (py ''FollowUp'') = PyStr (py ''Yes'')) (rows df)))"
  using assms
  by (simp add: follow_up_metric_def bind_err_def column_def series_get_value_counts
      count_list_map_cells)

lemma follow_up_metric_KeyError:
  "py ''FollowUp'' \<notin> set (columns df) \<Longrightarrow> follow_up_metric df = Inl KeyError"
  by (simp add: follow_up_metric_def bind_err_def column_def)

lemma kpis_Inr:
  assumes "kpis df = Inr snap"
  shows "follow_up_metric df = Inr (follow_ups snap)" and "patient_list snap = rows df"
    and "total snap = length (rows df)"
  using assms by (auto simp: kpis_def bind_err_def split: sum.splits)

lemma overview_Shown:
  assumes "overview sh sel = Inr (js, Shown snap)"
  shows "\<exists>df df'. date_filter df sel = Inr df' \<and> kpis df' = Inr snap \<and>
           df = DataFrame (get_all_records sh) \<and> \<not> df_empty df"
  using assms by (auto simp: overview_def Let_def bind_err_def split: if_splits sum.splits)

section \<open>The most frequent value exists\<close>

lemma fold_max_in_set:
  fixes xs :: "nat list"
  assumes "xs \<noteq> []"
  shows "fold max xs 0 \<in> set xs"
proof -
  have "fold max xs 0 = Max (set (0 # xs))"
    by (rule Max.set_eq_fold [symmetric])
  also have "\<dots> = Max (set xs)"
    using assms by (simp add: max_def)
  also have "\<dots> \<in> set xs"
    using assms by (intro Max_in) auto
  finally show ?thesis .
qed

lemma value_counts_Nil: "value_counts col = [] \<longleftrightarrow> dropna col = []"
proof -
  have "first_seen (dropna col) = [] \<longleftrightarrow> dropna col = []"
    using set_first_seen [of "dropna col"] by (metis set_empty)
  then show ?thesis by (simp add: value_counts_def)
qed

lemma modes_not_Nil:
  assumes "dropna col \<noteq> []"
  shows "modes col \<noteq> []"
proof -
  let ?counts = "value_counts col"
  have ne: "map snd ?counts \<noteq> []"
    using assms by (simp add: value_counts_Nil)
  then have "fold max (map snd ?counts) 0 \<in> set (map snd ?counts)"
    by (rule fold_max_in_set)
  then obtain v where "(v, fold max (map snd ?counts) 0) \<in> set ?counts"
    by auto
  then have "filter (\<lambda>(v, n). n = fold max (map snd ?counts) 0) ?counts \<noteq> []"
    by (auto simp: filter_empty_conv)
  then show ?thesis
    by (simp add: modes_def Let_def)
qed

lemma length_sort_modes: "length (sort_modes ms) = length ms"
  by (simp add: sort_modes_def)

lemma sort_modes_Nil: "sort_modes ms = [] \<longleftrightarrow> ms = []"
  using length_sort_modes [of ms] by (metis length_0_conv)

lemma mode0_returns:
  assumes "dropna col \<noteq> []"
  shows "\<exists>v. mode0 col = Inr v"
proof -
  have "sort_modes (modes col) \<noteq> []"
    using assms by (simp add: sort_modes_Nil modes_not_Nil)
  then show ?thesis
    by (cases "sort_modes (modes col)") (simp_all add: mode0_def)
qed

section \<open>Records and frames of a sheet\<close>

lemma schema_length: "length schema = 8"
  by (simp add: schema_def)

lemma record_keys:
  assumes "r \<in> set (get_all_records sh)"
  shows "map fst r = header sh"
proof -
  from assms obtain vals where r: "r = zip (header sh) (vals @ replicate (length (header sh) - length vals) (PyStr []))"
    by (auto simp: get_all_records_def)
  show ?thesis
    unfolding r by (simp add: map_fst_zip_take)
qed

lemma record_cell_stored:
  assumes sh: "list_all (list_all stored_value) (data_rows sh)"
    and r: "r \<in> set (get_all_records sh)" and c: "c \<in> set (header sh)"
  shows "stored_value (cell r c)"
proof -
  from r obtain vals where vals: "vals \<in> set (data_rows sh)"
    and r': "r = zip (header sh) (vals @ replicate (length (header sh) - length vals) (PyStr []))"
    by (auto simp: get_all_records_def)
  let ?padded = "vals @ replicate (length (header sh) - length vals) (PyStr [])"
  have all: "\<forall>v\<in>set ?padded. stored_value v"
    using sh vals by (auto simp: list_all_iff)
  have "c \<in> set (map fst r)"
    using record_keys [OF r] c by simp
  then obtain v where v: "map_of r c = Some v"
    by (metis map_of_eq_None_iff not_Some_eq set_map)
  then have "(c, v) \<in> set r"
    by (rule map_of_SomeD)
  then have "v \<in> set ?padded"
    unfolding r' by (rule set_zip_rightD)
  with all have "stored_value v"
    by blast
  with v show ?thesis
    by (simp add: cell_def)
qed

lemma stored_value_not_NaN: "stored_value v \<Longrightarrow> v \<noteq> PyNaN"
  by (cases v) simp_all

lemma stored_value_not_date: "stored_value v \<Longrightarrow> \<not> py_eq v (PyDate d)"
  by (cases v) simp_all

lemma columns_DataFrame:
  assumes "recs \<noteq> []" and "\<forall>r\<in>set recs. map fst r = ks"
  shows "set (columns (DataFrame recs)) = set ks"
proof -
  have "set (columns (DataFrame recs)) = (\<Union>r\<in>set recs. set (map fst r))"
    by (simp add: DataFrame_def set_first_seen)
  also have "\<dots> = (\<Union>r\<in>set recs. set ks)"
    using assms(2) by simp
  also have "\<dots> = set ks"
    using assms(1) by auto
  finally show ?thesis .
qed

lemma get_all_records_Nil: "get_all_records sh = [] \<longleftrightarrow> data_rows sh = []"
  by (simp add: get_all_records_def)

lemma frame_columns:
  assumes "data_rows sh \<noteq> []"
  shows "set (columns (DataFrame (get_all_records sh))) = set (header sh)"
  using assms by (intro columns_DataFrame) (simp_all add: get_all_records_Nil record_keys)

lemma rows_DataFrame: "rows (DataFrame recs) = recs"
  by (simp add: DataFrame_def)

section \<open>The overview returns\<close>

lemma schema_members:
  "py ''Date'' \<in> set schema" "py ''FollowUp'' \<in> set schema"
  "py ''Diagnosis'' \<in> set schema" "py ''Prakriti'' \<in> set schema"
  by (simp_all add: schema_def)

lemma schema_not_Nil: "schema \<noteq> []"
  by (simp add: schema_def)

lemma top_metric_returns:
  assumes c: "c \<in> set (columns df)"
    and cells: "\<forall>r\<in>set (rows df). cell r c \<noteq> PyNaN"
  shows "\<exists>v. top_metric df c = Inr v"
proof (cases "df_empty df")
  case True
  then show ?thesis by (simp add: top_metric_def)
next
  case False
  then have "rows df \<noteq> []"
    by (simp add: df_empty_def)
  with cells have "dropna (map (\<lambda>r. cell r c) (rows df)) \<noteq> []"
    by (cases "rows df") (simp_all add: dropna_def)
  then obtain v where "mode0 (map (\<lambda>r. cell r c) (rows df)) = Inr v"
    using mode0_returns by blast
  with False c show ?thesis
    by (simp add: top_metric_def column_def bind_err_def)
qed

lemma top_metric_no_rows:
  "rows df = [] \<Longrightarrow> top_metric df c = Inr (PyStr (py ''-''))"
  by (simp add: top_metric_def df_empty_def)

lemma chart_counts_returns:
  "c \<in> set (columns df) \<Longrightarrow>
     chart_counts df c = Inr (value_counts (map (\<lambda>r. cell r c) (rows df)))"
  by (simp add: chart_counts_def column_def bind_err_def)

lemma kpis_returns:
  assumes cols: "py ''FollowUp'' \<in> set (columns df)" "py ''Diagnosis'' \<in> set (columns df)"
      "py ''Prakriti'' \<in> set (columns df)"
    and cells: "\<forall>r\<in>set (rows df). cell r (py ''Diagnosis'') \<noteq> PyNaN \<and> cell r (py ''Prakriti'') \<noteq> PyNaN"
  shows "\<exists>snap. kpis df = Inr snap"
proof -
  obtain td where td: "top_metric df (py ''Diagnosis'') = Inr td"
    using top_metric_returns [OF cols(2)] cells by blast
  obtain tp where tp: "top_metric df (py ''Prakriti'') = Inr tp"
    using top_metric_returns [OF cols(3)] cells by blast
  show ?thesis
    by (simp add: kpis_def bind_err_def follow_up_metric_counts [OF cols(1)] td tp
        chart_counts_returns cols)
qed

lemma kpis_no_rows:
  assumes cols: "py ''FollowUp'' \<in> set (columns df)" "py ''Diagnosis'' \<in> set (columns df)"
      "py ''Prakriti'' \<in> set (columns df)"
    and none: "rows df = []"
  shows "kpis df =
     Inr \<lparr>total = 0, follow_ups = 0, top_diagnosis = PyStr (py ''-''),
          top_prakriti = PyStr (py ''-''), diagnosis_counts = [], prakriti_counts = [],
          patient_list = []\<rparr>"
  by (simp add: kpis_def bind_err_def follow_up_metric_counts [OF cols(1)] top_metric_no_rows
      chart_counts_returns cols none value_counts_def dropna_def first_seen_def)

lemma date_filter_None: "date_filter df None = Inr df"
  by (simp add: date_filter_def)

lemma date_filter_columns:
  assumes "date_filter df sel = Inr df'"
  shows "columns df' = columns df" and "set (rows df') \<subseteq> set (rows df)"
  using assms by (auto simp: date_filter_def select_eq_def split: option.splits if_splits)

lemma date_filter_returns:
  assumes "py ''Date'' \<in> set (columns df)"
  shows "\<exists>df'. date_filter df sel = Inr df'"
  using assms by (cases sel) (simp_all add: date_filter_def select_eq_def)

text \<open>
  A cell read from the sheet is never a date object, so no row passes the comparison of
  line 107.
\<close>

lemma date_filter_stored:
  assumes d: "py ''Date'' \<in> set (columns df)"
    and cells: "\<forall>r\<in>set (rows df). stored_value (cell r (py ''Date''))"
  shows "date_filter df (Some d) = Inr (df\<lparr>rows := []\<rparr>)"
proof -
  have "filter (\<lambda>r. py_eq (cell r (py ''Date'')) (PyDate d)) (rows df) = []"
    using cells by (simp add: filter_empty_conv stored_value_not_date)
  with d show ?thesis
    by (simp add: date_filter_def select_eq_def)
qed

lemma overview_no_data:
  assumes "data_rows sh = []"
  shows "overview sh sel = Inr ([], NoData)"
  using assms
  by (simp add: overview_def get_all_records_def DataFrame_def df_empty_def to_dict_records_def)

lemma overview_shows:
  assumes st: "stored_sheet sh" and ne: "data_rows sh \<noteq> []"
  shows "\<exists>js snap. overview sh sel = Inr (js, Shown snap)"
proof -
  let ?df = "DataFrame (get_all_records sh)"
  have hdr: "header sh = schema" and vals: "list_all (list_all stored_value) (data_rows sh)"
    using st by (simp_all add: stored_sheet_def)
  have cols: "set (columns ?df) = set schema"
    using frame_columns [OF ne] hdr by simp
  have not_empty: "\<not> df_empty ?df"
    using ne cols schema_not_Nil
    by (auto simp: df_empty_def rows_DataFrame get_all_records_Nil)
  obtain df' where f: "date_filter ?df sel = Inr df'"
    using date_filter_returns [of ?df sel] cols schema_members by auto
  have cols': "set (columns df') = set schema"
    using date_filter_columns(1) [OF f] cols by simp
  have sub: "set (rows df') \<subseteq> set (get_all_records sh)"
    using date_filter_columns(2) [OF f] by (simp add: rows_DataFrame)
  have cells: "\<forall>r\<in>set (rows df'). cell r (py ''Diagnosis'') \<noteq> PyNaN \<and> cell r (py ''Prakriti'') \<noteq> PyNaN"
  proof
    fix r assume "r \<in> set (rows df')"
    with sub have r: "r \<in> set (get_all_records sh)" by blast
    show "cell r (py ''Diagnosis'') \<noteq> PyNaN \<and> cell r (py ''Prakriti'') \<noteq> PyNaN"
      using record_cell_stored [OF vals r] hdr schema_members
      by (simp add: stored_value_not_NaN)
  qed
  obtain snap where "kpis df' = Inr snap"
    using kpis_returns [of df'] cols' schema_members cells by auto
  with f not_empty show ?thesis
    by (simp add: overview_def Let_def bind_err_def)
qed

section \<open>The overview on the sample data\<close>

lemmas overview_eval = overview_def get_all_records_def DataFrame_def first_seen_def df_empty_def
  to_dict_records_def cell_def date_filter_def select_eq_def kpis_def bind_err_def
  follow_up_metric_def top_metric_def chart_counts_def column_def value_counts_def dropna_def
  series_get_def mode0_def modes_def sort_modes_def schema_def form_row_def str_date_def
  zfill_def py_def scenario_store_def empty_store_def visit_def jan1_def shown_snapshot_def Let_def

lemma scenario_stored: "stored_sheet scenario_store"
  by (simp add: stored_sheet_def scenario_store_def form_row_def)

lemma scenario_rows: "data_rows scenario_store \<noteq> []"
  by (simp add: scenario_store_def)

section \<open>Claims about the overview\<close>

text \<open>
  Claim C1: the overview should retain exactly the records whose date equals the supplied
  date. The script does not: a stored date is the text written by \<open>str(opd_date)\<close>, the
  supplied date is a date object, and the comparison of line 107 between the two is never
  true. In the sample store the first two records are dated 2024-01-01, yet filtering by
  2024-01-01 leaves no row.
\<close>

theorem date_filter_misses_stored_date:
  "map (\<lambda>r. cell r (py ''Date'')) (get_all_records scenario_store) =
     [PyStr (str_date jan1), PyStr (str_date jan1), PyStr (py ''2024-01-02'')] \<and>
   date_filter (DataFrame (get_all_records scenario_store)) (Some jan1) =
     Inr \<lparr>columns = schema, rows = []\<rparr>"
  by (simp add: overview_eval)

text \<open>
  Claim C2: for three records dated 2024-01-01, 2024-01-01, 2024-01-02 with diagnoses Cold,
  Cold, Fever, filtering to 2024-01-01 should give a total of 2, top diagnosis Cold and the
  diagnosis counts Cold: 2. The script gives a total of 0, the placeholder as top
  diagnosis and no counts, for the reason shown under C1.
\<close>

theorem scenario_filtered_overview:
  "shown_snapshot (overview scenario_store (Some jan1)) =
     Some \<lparr>total = 0, follow_ups = 0, top_diagnosis = PyStr (py ''-''),
           top_prakriti = PyStr (py ''-''), diagnosis_counts = [], prakriti_counts = [],
           patient_list = []\<rparr>"
  by (simp add: overview_eval)

text \<open>
  Claim C3, as stated: whenever the record set is empty, the empty store included, the
  overview reports a total of 0 and the placeholder in both top fields. On the empty store
  the script reports no metric at all: it shows the notice of line 97 only.
\<close>

theorem empty_store_shows_no_metrics: "overview empty_store None = Inr ([], NoData)"
  by (simp add: empty_store_def overview_no_data)

text \<open>
  Claim C3, amended: on a store without data rows the overview shows only the notice and
  no metrics, and does not raise; on a store with the schema header and at least one data
  row, whenever the date filter leaves no row, the overview does not raise and reports a
  total of 0, no follow-ups, the placeholder in both top fields and empty charts.
\<close>

theorem overview_on_empty_sets:
  "(data_rows sh = [] \<longrightarrow> overview sh sel = Inr ([], NoData)) \<and>
   (header sh = schema \<and> data_rows sh \<noteq> [] \<and>
    date_filter (DataFrame (get_all_records sh)) sel = Inr df' \<and> rows df' = [] \<longrightarrow>
      (\<exists>js. overview sh sel =
         Inr (js, Shown \<lparr>total = 0, follow_ups = 0, top_diagnosis = PyStr (py ''-''),
                top_prakriti = PyStr (py ''-''), diagnosis_counts = [], prakriti_counts = [],
                patient_list = []\<rparr>)))"
proof (intro conjI impI)
  assume "data_rows sh = []"
  then show "overview sh sel = Inr ([], NoData)"
    by (rule overview_no_data)
next
  let ?df = "DataFrame (get_all_records sh)"
  assume a: "header sh = schema \<and> data_rows sh \<noteq> [] \<and> date_filter ?df sel = Inr df' \<and> rows df' = []"
  then have cols: "set (columns ?df) = set schema"
    using frame_columns [of sh] by simp
  from a have not_empty: "\<not> df_empty ?df"
    using cols schema_not_Nil by (auto simp: df_empty_def rows_DataFrame get_all_records_Nil)
  from a have f: "date_filter ?df sel = Inr df'" and none: "rows df' = []"
    by simp_all
  have cols': "set (columns df') = set schema"
    using date_filter_columns(1) [OF f] cols by simp
  have "kpis df' =
     Inr \<lparr>total = 0, follow_ups = 0, top_diagnosis = PyStr (py ''-''),
          top_prakriti = PyStr (py ''-''), diagnosis_counts = [], prakriti_counts = [],
          patient_list = []\<rparr>"
    using cols' schema_members none by (intro kpis_no_rows) simp_all
  with f not_empty show "\<exists>js. overview sh sel =
         Inr (js, Shown \<lparr>total = 0, follow_ups = 0, top_diagnosis = PyStr (py ''-''),
                top_prakriti = PyStr (py ''-''), diagnosis_counts = [], prakriti_counts = [],
                patient_list = []\<rparr>)"
    by (simp add: overview_def Let_def bind_err_def)
qed

theorem overview_on_empty_sets_witness:
  "overview empty_store None = Inr ([], NoData) \<and>
   (\<exists>js. overview scenario_store (Some \<lparr>year = 2023, month = 5, day = 9\<rparr>) =
      Inr (js, Shown \<lparr>total = 0, follow_ups = 0, top_diagnosis = PyStr (py ''-''),
             top_prakriti = PyStr (py ''-''), diagnosis_counts = [], prakriti_counts = [],
             patient_list = []\<rparr>))"
proof -
  let ?d = "\<lparr>year = 2023, month = 5, day = 9\<rparr>"
  have e: "data_rows empty_store = []"
    by (simp add: empty_store_def)
  have h: "header scenario_store = schema"
    by (simp add: scenario_store_def)
  have f: "date_filter (DataFrame (get_all_records scenario_store)) (Some ?d) =
             Inr \<lparr>columns = schema, rows = []\<rparr>"
    by (simp add: overview_eval)
  have n: "rows \<lparr>columns = schema, rows = []\<rparr> = []"
    by simp
  show ?thesis
    using overview_on_empty_sets [of empty_store None]
      overview_on_empty_sets [of scenario_store "Some ?d" "\<lparr>columns = schema, rows = []\<rparr>"]
      e h scenario_rows f n
    by blast
qed

text \<open>
  Claim C4: the follow-up count of the overview equals the number of records whose
  \<open>FollowUp\<close> field is exactly the text Yes. This holds of every snapshot the overview
  shows, over the records it lists; and on a store of sheet values with at least one data
  row the unfiltered overview does show a snapshot, listing every record.
\<close>

theorem follow_up_count_is_number_of_yes:
  "(overview sh sel = Inr (js, Shown snap) \<longrightarrow>
      follow_ups snap =
        length (filter (\<lambda>r. cell r (py ''FollowUp'') = PyStr (py ''Yes'')) (patient_list snap))) \<and>
   (stored_sheet sh \<and> data_rows sh \<noteq> [] \<longrightarrow>
      (\<exists>js' snap'. overview sh None = Inr (js', Shown snap') \<and>
         patient_list snap' = get_all_records sh))"
proof (intro conjI impI)
  assume shown: "overview sh sel = Inr (js, Shown snap)"
  then obtain df df' where k: "kpis df' = Inr snap"
    using overview_Shown by blast
  then have fu: "follow_up_metric df' = Inr (follow_ups snap)" and pl: "patient_list snap = rows df'"
    by (rule kpis_Inr)+
  have "py ''FollowUp'' \<in> set (columns df')"
  proof (rule ccontr)
    assume "py ''FollowUp'' \<notin> set (columns df')"
    then have "follow_up_metric df' = Inl KeyError"
      by (rule follow_up_metric_KeyError)
    with fu show False by simp
  qed
  then have "follow_up_metric df' =
      Inr (length (filter (\<lambda>r. cell r (py ''FollowUp'') = PyStr (py ''Yes'')) (rows df')))"
    by (rule follow_up_metric_counts)
  with fu pl show "follow_ups snap =
        length (filter (\<lambda>r. cell r (py ''FollowUp'') = PyStr (py ''Yes'')) (patient_list snap))"
    by simp
next
  assume "stored_sheet sh \<and> data_rows sh \<noteq> []"
  then obtain js' snap' where o: "overview sh None = Inr (js', Shown snap')"
    using overview_shows [of sh None] by blast
  then obtain df df' where f: "date_filter df None = Inr df'" and k: "kpis df' = Inr snap'"
    and df: "df = DataFrame (get_all_records sh)"
    using overview_Shown by blast
  from f have "df' = df"
    by (simp add: date_filter_def)
  with kpis_Inr(2) [OF k] df have "patient_list snap' = get_all_records sh"
    by (simp add: rows_DataFrame)
  with o show "\<exists>js' snap'. overview sh None = Inr (js', Shown snap') \<and>
         patient_list snap' = get_all_records sh"
    by blast
qed

theorem follow_up_count_witness:
  "\<exists>js snap. overview scenario_store None = Inr (js, Shown snap) \<and>
      patient_list snap = get_all_records scenario_store \<and> follow_ups snap = 2"
proof -
  obtain js snap where o: "overview scenario_store None = Inr (js, Shown snap)"
    and pl: "patient_list snap = get_all_records scenario_store"
    using follow_up_count_is_number_of_yes [of scenario_store None undefined undefined]
      scenario_stored scenario_rows by blast
  have "follow_ups snap =
      length (filter (\<lambda>r. cell r (py ''FollowUp'') = PyStr (py ''Yes'')) (patient_list snap))"
    using follow_up_count_is_number_of_yes [of scenario_store None js snap] o by blast
  also have "\<dots> = 2"
    unfolding pl
    by (simp add: get_all_records_def scenario_store_def schema_def form_row_def visit_def
        cell_def py_def)
  finally show ?thesis
    using o pl by blast
qed

section \<open>Blank text, and a run through the overview branch\<close>

lemma list_all_dropWhile_iff: "list_all P (dropWhile P xs) \<longleftrightarrow> list_all P xs"
  by (induction xs) simp_all

lemma strip_empty_iff: "strip s = [] \<longleftrightarrow> list_all is_space s"
proof -
  have "strip s = [] \<longleftrightarrow> list_all is_space (rev (dropWhile is_space s))"
    by (simp add: strip_def dropWhile_eq_Nil_conv list_all_iff)
  also have "\<dots> \<longleftrightarrow> list_all is_space (dropWhile is_space s)"
    by (simp add: list_all_iff)
  also have "\<dots> \<longleftrightarrow> list_all is_space s"
    by (rule list_all_dropWhile_iff)
  finally show ?thesis .
qed

lemma render_overview:
  assumes "active_view v0 inp = OverviewView" and "overview sh (selected_date inp) = Inr (js, panel)"
  shows "render str_of llm sh v0 inp =
           (let p = build_opd_prompt str_of js (user_prompt inp);
                (reqs, drawn, err) = generate_section llm p (user_prompt inp) (generate inp)
            in \<lparr>view_after = OverviewView, sheet_after = sh, page = Panel panel # drawn,
                prompt = Some p, requests = reqs, raised = err\<rparr>)"
  using assms by (simp add: render_def Let_def)

section \<open>Claims about the prompt box\<close>

text \<open>
  Claim C5: with an instruction that is empty or all whitespace, pressing the generate
  button sends no request to the inference service and shows the warning; with an
  instruction that has a character other than whitespace, the request is sent. The third
  part states the same of a whole run of the script that reaches the button.
\<close>

theorem generate_checks_blank_instruction:
  "(list_all is_space u \<longrightarrow>
      generate_section llm p u True = ([], [Warning (py ''Please enter a prompt'')], None)) \<and>
   (\<not> list_all is_space u \<longrightarrow> fst (generate_section llm p u True) = [inference_request p]) \<and>
   (active_view v0 inp = OverviewView \<and> overview sh (selected_date inp) = Inr (js, panel) \<and>
    generate inp \<longrightarrow>
      requests (render str_of llm sh v0 inp) =
        (if list_all is_space (user_prompt inp) then []
         else [inference_request (build_opd_prompt str_of js (user_prompt inp))]))"
proof (intro conjI impI)
  assume "list_all is_space u"
  then show "generate_section llm p u True = ([], [Warning (py ''Please enter a prompt'')], None)"
    by (simp add: generate_section_def strip_empty_iff)
next
  assume "\<not> list_all is_space u"
  then show "fst (generate_section llm p u True) = [inference_request p]"
    by (simp add: generate_section_def strip_empty_iff split: list.splits)
next
  assume a: "active_view v0 inp = OverviewView \<and> overview sh (selected_date inp) = Inr (js, panel) \<and>
    generate inp"
  then have "render str_of llm sh v0 inp =
           (let p = build_opd_prompt str_of js (user_prompt inp);
                (reqs, drawn, err) = generate_section llm p (user_prompt inp) (generate inp)
            in \<lparr>view_after = OverviewView, sheet_after = sh, page = Panel panel # drawn,
                prompt = Some p, requests = reqs, raised = err\<rparr>)"
    by (intro render_overview) simp_all
  with a show "requests (render str_of llm sh v0 inp) =
        (if list_all is_space (user_prompt inp) then []
         else [inference_request (build_opd_prompt str_of js (user_prompt inp))])"
    by (simp add: Let_def generate_section_def strip_empty_iff split: list.splits)
qed

theorem generate_checks_blank_instruction_witness:
  "generate_section (\<lambda>r. [py ''ok'']) (py ''p'') [32, 9, 160, 10] True =
     ([], [Warning (py ''Please enter a prompt'')], None) \<and>
   fst (generate_section (\<lambda>r. [py ''ok'']) (py ''p'') (py '' hi '') True) =
     [inference_request (py ''p'')] \<and>
   requests (render (\<lambda>js. []) (\<lambda>r. [py ''ok'']) empty_store OverviewView (prompt_run [32, 9] True)) = [] \<and>
   requests (render (\<lambda>js. []) (\<lambda>r. [py ''ok'']) empty_store OverviewView (prompt_run (py ''hi'') True)) =
     [inference_request (build_opd_prompt (\<lambda>js. []) [] (py ''hi''))]"
proof -
  have b: "list_all is_space [32, 9, 160, 10]" "list_all is_space (user_prompt (prompt_run [32, 9] True))"
    by (simp_all add: is_space_def prompt_run_def)
  have n: "\<not> list_all is_space (py '' hi '')" "\<not> list_all is_space (user_prompt (prompt_run (py ''hi'') True))"
    by (simp_all add: is_space_def py_def prompt_run_def)
  have v: "active_view OverviewView (prompt_run t True) = OverviewView" for t
    by (simp add: active_view_def prompt_run_def)
  have o: "overview empty_store (selected_date (prompt_run t True)) = Inr ([], NoData)" for t
    by (simp add: overview_no_data empty_store_def)
  have g: "generate (prompt_run t True)" "user_prompt (prompt_run t True) = t" for t
    by (simp_all add: prompt_run_def)
  show ?thesis
    using generate_checks_blank_instruction
        [of "[32, 9, 160, 10]" "\<lambda>r. [py ''ok'']" "py ''p''" OverviewView "prompt_run [32, 9] True"
          empty_store "[]" NoData "\<lambda>js. []"]
      generate_checks_blank_instruction
        [of "py '' hi ''" "\<lambda>r. [py ''ok'']" "py ''p''" OverviewView "prompt_run (py ''hi'') True"
          empty_store "[]" NoData "\<lambda>js. []"]
      b n v o g
    by simp
qed

section \<open>The template\<close>

lemma sublist_lines_text:
  assumes "l \<in> set ls"
  shows "sublist l (lines_text ls)"
proof -
  from assms obtain as bs where "ls = as @ l # bs"
    by (meson split_list)
  then have "lines_text ls = lines_text as @ l @ ([10] @ lines_text bs)"
    by (simp add: lines_text_def)
  then show ?thesis
    unfolding sublist_def by blast
qed

lemma sublist_prefix_of_line:
  assumes "sublist (a @ b) t"
  shows "sublist a t"
proof -
  from assms obtain ps ss where "t = ps @ (a @ b) @ ss"
    unfolding sublist_def by blast
  then have "t = ps @ a @ (b @ ss)"
    by simp
  then show ?thesis
    unfolding sublist_def by blast
qed

section \<open>The columns of a frame, in order\<close>

lemma remdups_snoc: "remdups (ys @ [x]) = removeAll x (remdups ys) @ [x]"
  by (induction ys) auto

lemma first_seen_Cons: "first_seen (x # xs) = x # removeAll x (first_seen xs)"
  by (simp add: first_seen_def remdups_snoc removeAll_filter_not_eq rev_filter)

lemma first_seen_append:
  "first_seen (xs @ ys) = first_seen xs @ filter (\<lambda>y. y \<notin> set xs) (first_seen ys)"
proof (induction xs)
  case Nil
  then show ?case by (simp add: first_seen_def)
next
  case (Cons x xs)
  have "removeAll x (filter (\<lambda>y. y \<notin> set xs) zs) = filter (\<lambda>y. y \<notin> set (x # xs)) zs" for zs
    by (induction zs) auto
  with Cons show ?case
    by (simp add: first_seen_Cons)
qed

lemma first_seen_distinct:
  assumes "distinct xs"
  shows "first_seen xs = xs"
proof -
  have same: "remdups (rev xs) = rev xs"
    using assms by (intro distinct_remdups_id) simp
  show ?thesis
    unfolding first_seen_def by (simp only: same rev_rev_ident)
qed

lemma columns_DataFrame_eq:
  assumes "recs \<noteq> []" and keys: "\<forall>r\<in>set recs. map fst r = ks" and "distinct ks"
  shows "columns (DataFrame recs) = ks"
proof -
  from assms(1) obtain r rs where recs: "recs = r # rs"
    by (cases recs) auto
  let ?rest = "concat (map (map fst) rs)"
  have "set ?rest \<subseteq> set ks"
    using keys recs by auto
  then have "filter (\<lambda>y. y \<notin> set ks) (first_seen ?rest) = []"
    by (auto simp: filter_empty_conv set_first_seen)
  moreover have "map fst r = ks"
    using keys recs by simp
  ultimately show ?thesis
    using \<open>distinct ks\<close> by (simp add: DataFrame_def recs first_seen_append first_seen_distinct)
qed

lemma cells_of_record:
  assumes "distinct (map fst r)"
  shows "map (\<lambda>c. (c, cell r c)) (map fst r) = r"
  using assms
proof (induction r)
  case Nil
  then show ?case by simp
next
  case (Cons kv r)
  obtain k v where kv: "kv = (k, v)" by (cases kv)
  have "map (\<lambda>c. (c, cell ((k, v) # r) c)) (map fst r) = map (\<lambda>c. (c, cell r c)) (map fst r)"
    using Cons.prems kv by (intro map_cong) (auto simp: cell_def)
  with Cons show ?case
    by (simp add: kv cell_def)
qed

lemma distinct_schema: "distinct schema"
  by (simp add: schema_def py_def)

lemma opd_json_is_all_records:
  assumes "header sh = schema"
  shows "to_dict_records (DataFrame (get_all_records sh)) = get_all_records sh"
proof (cases "data_rows sh = []")
  case True
  then show ?thesis
    by (simp add: get_all_records_def DataFrame_def to_dict_records_def)
next
  case False
  let ?recs = "get_all_records sh"
  have keys: "\<forall>r\<in>set ?recs. map fst r = schema"
    using record_keys assms by simp
  have "columns (DataFrame ?recs) = schema"
    using False keys distinct_schema by (intro columns_DataFrame_eq) (simp_all add: get_all_records_Nil)
  moreover have "map (\<lambda>c. (c, cell r c)) schema = r" if "r \<in> set ?recs" for r
    using cells_of_record [of r] keys that distinct_schema by simp
  ultimately show ?thesis
    by (simp add: to_dict_records_def rows_DataFrame map_idI)
qed

lemma overview_json:
  assumes "overview sh sel = Inr (js, panel)"
  shows "js = to_dict_records (DataFrame (get_all_records sh))"
  using assms by (auto simp: overview_def Let_def bind_err_def split: if_splits sum.splits)

section \<open>Runs of the script\<close>

lemma render_entry:
  assumes "active_view v0 inp = EntryView"
  shows "render str_of llm sh v0 inp =
           \<lparr>view_after = (if submitted inp \<or> cancel inp then OverviewView else EntryView),
            sheet_after = (if submitted inp then append_row sh (form_row (form inp)) else sh),
            page = (if submitted inp then [Success] else []),
            prompt = None, requests = [], raised = Some NameError\<rparr>"
  using assms by (simp add: render_def Let_def)

lemma render_overview_raises:
  assumes "active_view v0 inp = OverviewView" and "overview sh (selected_date inp) = Inl e"
  shows "render str_of llm sh v0 inp =
           \<lparr>view_after = OverviewView, sheet_after = sh, page = [], prompt = None, requests = [],
            raised = Some e\<rparr>"
  using assms by (simp add: render_def Let_def)

lemma column_error: "column df c = Inl e \<Longrightarrow> e = KeyError"
  by (auto simp: column_def split: if_splits)

lemma mode0_error: "mode0 col = Inl e \<Longrightarrow> e = KeyError"
  by (auto simp: mode0_def split: list.splits)

lemma top_metric_error: "top_metric df c = Inl e \<Longrightarrow> e = KeyError"
  by (auto simp: top_metric_def bind_err_def split: if_splits sum.splits
      dest: column_error mode0_error)

lemma kpis_error: "kpis df = Inl e \<Longrightarrow> e = KeyError"
  by (auto simp: kpis_def bind_err_def follow_up_metric_def chart_counts_def
      split: sum.splits dest: column_error top_metric_error)

lemma date_filter_error: "date_filter df sel = Inl e \<Longrightarrow> e = KeyError"
  by (auto simp: date_filter_def select_eq_def split: option.splits if_splits)

lemma overview_error: "overview sh sel = Inl e \<Longrightarrow> e = KeyError"
  by (auto simp: overview_def Let_def bind_err_def split: if_splits sum.splits
      dest: date_filter_error kpis_error)

lemma generate_section_error:
  "generate_section llm p u c = (reqs, drawn, Some e) \<Longrightarrow> e = IndexError"
  by (auto simp: generate_section_def split: if_splits list.splits)

lemma view_cases: "v = EntryView \<or> v = OverviewView"
  by (cases v) simp_all

section \<open>Claims about the prompt\<close>

text \<open>
  Claim C6: for every record set, the empty one included, and every instruction, the
  built prompt contains the fixed phrases of the template verbatim (the role statement,
  the heading and the five rules, the headings of the data and of the tasks, and the seven
  numbered tasks, the first followed by the instruction) and the serialized record set;
  and in a run of the script the record set so embedded is the whole set fetched from the
  store, whatever date is selected in the overview.
\<close>

theorem prompt_has_fixed_text_and_all_records:
  "sublist (py ''You are assisting an Ayurvedic doctor.'') (build_opd_prompt str_of js u) \<and>
   sublist (py ''STRICT RULES:'') (build_opd_prompt str_of js u) \<and>
   sublist (py ''- Do NOT diagnose'') (build_opd_prompt str_of js u) \<and>
   sublist (py ''- Do NOT suggest medicines'') (build_opd_prompt str_of js u) \<and>
   sublist (py ''- Do NOT change treatment'') (build_opd_prompt str_of js u) \<and>
   sublist (py ''- Only summarize and observe patterns'') (build_opd_prompt str_of js u) \<and>
   sublist (py ''- Use simple, non-alarming language'') (build_opd_prompt str_of js u) \<and>
   sublist (py ''OPD DATA:'') (build_opd_prompt str_of js u) \<and>
   sublist (py ''TASK:'') (build_opd_prompt str_of js u) \<and>
   sublist (py ''1. Give a short OPD summary + '' @ u) (build_opd_prompt str_of js u) \<and>
   sublist (py ''2. List most common complaints'') (build_opd_prompt str_of js u) \<and>
   sublist (py ''3. List common diagnoses'') (build_opd_prompt str_of js u) \<and>
   sublist (py ''4. Mention prakriti trends'') (build_opd_prompt str_of js u) \<and>
   sublist (py ''5. Mention follow-up workload'') (build_opd_prompt str_of js u) \<and>
   sublist (py ''6. How Next week will be?'') (build_opd_prompt str_of js u) \<and>
   sublist (py ''7. How I can be Prepared?'') (build_opd_prompt str_of js u) \<and>
   sublist (str_of js) (build_opd_prompt str_of js u) \<and>
   (active_view v0 inp = OverviewView \<and> header sh = schema \<and>
    overview sh (selected_date inp) = Inr (opd_json, panel) \<longrightarrow>
      opd_json = get_all_records sh \<and>
      prompt (render str_of llm sh v0 inp) =
        Some (build_opd_prompt str_of (get_all_records sh) (user_prompt inp)))"
proof -
  have line: "sublist l (build_opd_prompt str_of js u)"
    if "l \<in> set ([[], py ''You are assisting an Ayurvedic doctor.'', [], py ''STRICT RULES:'',
            py ''- Do NOT diagnose'', py ''- Do NOT suggest medicines'',
            py ''- Do NOT change treatment'', py ''- Only summarize and observe patterns'',
            py ''- Use simple, non-alarming language'', [], py ''OPD DATA:'', str_of js, [],
            py ''TASK:'', py ''1. Give a short OPD summary + '' @ u,
            py ''2. List most common complaints'', py ''3. List common diagnoses'',
            py ''4. Mention prakriti trends'', py ''5. Mention follow-up workload'',
            py ''6. How Next week will be?'', py ''7. How I can be Prepared?''])" for l
    using that unfolding build_opd_prompt_def
    by (intro sublist_lines_text)
      (simp add: role_statement_def strict_rules_def summary_task_def further_tasks_def)
  have run: "opd_json = get_all_records sh \<and>
      prompt (render str_of llm sh v0 inp) =
        Some (build_opd_prompt str_of (get_all_records sh) (user_prompt inp))"
    if a: "active_view v0 inp = OverviewView \<and> header sh = schema \<and>
      overview sh (selected_date inp) = Inr (opd_json, panel)"
  proof -
    have j: "opd_json = get_all_records sh"
      using a overview_json [of sh "selected_date inp" opd_json panel]
        opd_json_is_all_records [of sh]
      by simp
    from a have "render str_of llm sh v0 inp =
           (let p = build_opd_prompt str_of opd_json (user_prompt inp);
                (reqs, drawn, err) = generate_section llm p (user_prompt inp) (generate inp)
            in \<lparr>view_after = OverviewView, sheet_after = sh, page = Panel panel # drawn,
                prompt = Some p, requests = reqs, raised = err\<rparr>)"
      by (intro render_overview) simp_all
    then have "prompt (render str_of llm sh v0 inp) =
        Some (build_opd_prompt str_of (get_all_records sh) (user_prompt inp))"
      by (simp add: Let_def j split: prod.splits)
    with j show ?thesis by simp
  qed
  show ?thesis
    using run by (intro conjI impI line) simp_all
qed

theorem prompt_has_fixed_text_and_all_records_witness:
  "sublist (py ''You are assisting an Ayurvedic doctor.'') (build_opd_prompt (\<lambda>js. dec (length js)) [] (py ''hi'')) \<and>
   sublist (py ''STRICT RULES:'') (build_opd_prompt (\<lambda>js. dec (length js)) [] (py ''hi'')) \<and>
   sublist (py ''- Do NOT diagnose'') (build_opd_prompt (\<lambda>js. dec (length js)) [] (py ''hi'')) \<and>
   sublist (py ''- Do NOT suggest medicines'') (build_opd_prompt (\<lambda>js. dec (length js)) [] (py ''hi'')) \<and>
   sublist (py ''- Do NOT change treatment'') (build_opd_prompt (\<lambda>js. dec (length js)) [] (py ''hi'')) \<and>
   sublist (py ''- Only summarize and observe patterns'') (build_opd_prompt (\<lambda>js. dec (length js)) [] (py ''hi'')) \<and>
   sublist (py ''- Use simple, non-alarming language'') (build_opd_prompt (\<lambda>js. dec (length js)) [] (py ''hi'')) \<and>
   sublist (py ''OPD DATA:'') (build_opd_prompt (\<lambda>js. dec (length js)) [] (py ''hi'')) \<and>
   sublist (py ''TASK:'') (build_opd_prompt (\<lambda>js. dec (length js)) [] (py ''hi'')) \<and>
   sublist (py ''1. Give a short OPD summary + '' @ py ''hi'') (build_opd_prompt (\<lambda>js. dec (length js)) [] (py ''hi'')) \<and>
   sublist (py ''2. List most common complaints'') (build_opd_prompt (\<lambda>js. dec (length js)) [] (py ''hi'')) \<and>
   sublist (py ''3. List common diagnoses'') (build_opd_prompt (\<lambda>js. dec (length js)) [] (py ''hi'')) \<and>
   sublist (py ''4. Mention prakriti trends'') (build_opd_prompt (\<lambda>js. dec (length js)) [] (py ''hi'')) \<and>
   sublist (py ''5. Mention follow-up workload'') (build_opd_prompt (\<lambda>js. dec (length js)) [] (py ''hi'')) \<and>
   sublist (py ''6. How Next week will be?'') (build_opd_prompt (\<lambda>js. dec (length js)) [] (py ''hi'')) \<and>
   sublist (py ''7. How I can be Prepared?'') (build_opd_prompt (\<lambda>js. dec (length js)) [] (py ''hi'')) \<and>
   sublist (py ''0'') (build_opd_prompt (\<lambda>js. dec (length js)) [] (py ''hi'')) \<and>
   prompt (render (\<lambda>js. dec (length js)) (\<lambda>r. []) scenario_store OverviewView
             ((prompt_run (py ''hi'') False)\<lparr>selected_date := Some jan1\<rparr>)) =
     Some (build_opd_prompt (\<lambda>js. dec (length js)) (get_all_records scenario_store) (py ''hi''))"
proof -
  let ?inp = "(prompt_run (py ''hi'') False)\<lparr>selected_date := Some jan1\<rparr>"
  have z: "(\<lambda>js. dec (length js)) ([] :: pyrecord list) = py ''0''"
    by (simp add: py_def)
  have v: "active_view OverviewView ?inp = OverviewView"
    by (simp add: active_view_def prompt_run_def)
  have h: "header scenario_store = schema"
    by (simp add: scenario_store_def)
  obtain js snap where o: "overview scenario_store (selected_date ?inp) = Inr (js, Shown snap)"
    using overview_shows [OF scenario_stored scenario_rows] by blast
  have u: "user_prompt ?inp = py ''hi''"
    by (simp add: prompt_run_def)
  show ?thesis
    using prompt_has_fixed_text_and_all_records
        [of "\<lambda>js. dec (length js)" "[]" "py ''hi''" OverviewView ?inp scenario_store js "Shown snap" "\<lambda>r. []"]
      z v h o u
    by (metis (no_types, lifting))
qed

text \<open>
  Claim C10: line 173 uses the name \<open>opd_json\<close>, bound only in the overview branch; a run
  raises the name-resolution error exactly when its active view is the entry view.
\<close>

theorem prompt_section_needs_overview_branch:
  "raised (render str_of llm sh v0 inp) = Some NameError \<longleftrightarrow> active_view v0 inp = EntryView"
proof
  assume r: "raised (render str_of llm sh v0 inp) = Some NameError"
  show "active_view v0 inp = EntryView"
  proof (rule ccontr)
    assume "active_view v0 inp \<noteq> EntryView"
    then have v: "active_view v0 inp = OverviewView"
      using view_cases by blast
    show False
    proof (cases "overview sh (selected_date inp)")
      case (Inl e)
      then have "e = KeyError" by (rule overview_error)
      with r render_overview_raises [OF v Inl] show False by simp
    next
      case (Inr res)
      obtain js panel where res: "res = (js, panel)" by (cases res)
      obtain reqs drawn err where g: "generate_section llm (build_opd_prompt str_of js (user_prompt inp))
          (user_prompt inp) (generate inp) = (reqs, drawn, err)"
        by (metis prod_cases3)
      have "raised (render str_of llm sh v0 inp) = err"
        using render_overview [OF v Inr [unfolded res]] g by (simp add: Let_def)
      with r have "err = Some NameError" by simp
      with g generate_section_error show False by fastforce
    qed
  qed
next
  assume "active_view v0 inp = EntryView"
  then show "raised (render str_of llm sh v0 inp) = Some NameError"
    by (simp add: render_entry)
qed

section \<open>What a run builds, sends and writes\<close>

lemma render_prompt:
  assumes "active_view v0 inp = OverviewView" and "header sh = schema"
    and "overview sh (selected_date inp) = Inr (js, panel)"
  shows "prompt (render str_of llm sh v0 inp) =
           Some (build_opd_prompt str_of (get_all_records sh) (user_prompt inp))"
proof -
  have "js = get_all_records sh"
    using overview_json [OF assms(3)] opd_json_is_all_records [OF assms(2)] by simp
  then show ?thesis
    using render_overview [OF assms(1) assms(3)] by (simp add: Let_def split: prod.splits)
qed

lemma render_requests_without_click:
  assumes "\<not> generate inp"
  shows "requests (render str_of llm sh v0 inp) = []"
proof (cases "active_view v0 inp")
  case EntryView
  then show ?thesis by (simp add: render_entry)
next
  case OverviewView
  show ?thesis
  proof (cases "overview sh (selected_date inp)")
    case (Inl e)
    then show ?thesis by (simp add: render_overview_raises [OF OverviewView])
  next
    case (Inr res)
    obtain js panel where res: "res = (js, panel)" by (cases res)
    show ?thesis
      using render_overview [OF OverviewView Inr [unfolded res]] assms
      by (simp add: Let_def generate_section_def)
  qed
qed

lemma render_sheet_without_save:
  assumes "\<not> submitted inp"
  shows "sheet_after (render str_of llm sh v0 inp) = sh"
proof (cases "active_view v0 inp")
  case EntryView
  then show ?thesis using assms by (simp add: render_entry)
next
  case OverviewView
  show ?thesis
  proof (cases "overview sh (selected_date inp)")
    case (Inl e)
    then show ?thesis by (simp add: render_overview_raises [OF OverviewView])
  next
    case (Inr res)
    obtain js panel where res: "res = (js, panel)" by (cases res)
    show ?thesis
      using render_overview [OF OverviewView Inr [unfolded res]]
      by (simp add: Let_def split: prod.splits)
  qed
qed

section \<open>ISO dates\<close>

lemma dec_1: "n < 10 \<Longrightarrow> dec n = [48 + n]"
  by (subst dec.simps) simp

lemma dec_2:
  assumes "10 \<le> n" "n < 100"
  shows "dec n = [48 + n div 10, 48 + n mod 10]"
proof -
  have "n div 10 < 10" using assms by simp
  then have "dec (n div 10) = [48 + n div 10]" by (rule dec_1)
  with assms show ?thesis
    by (subst dec.simps) (simp del: dec.simps)
qed

lemma dec_3:
  assumes "100 \<le> n" "n < 1000"
  shows "dec n = [48 + n div 100, 48 + n div 10 mod 10, 48 + n mod 10]"
proof -
  have "10 \<le> n div 10" "n div 10 < 100" using assms by simp_all
  then have "dec (n div 10) = [48 + n div 10 div 10, 48 + n div 10 mod 10]" by (rule dec_2)
  with assms show ?thesis
    by (subst dec.simps) (simp del: dec.simps add: div_mult2_eq [symmetric])
qed

lemma dec_4:
  assumes "1000 \<le> n" "n < 10000"
  shows "dec n = [48 + n div 1000, 48 + n div 100 mod 10, 48 + n div 10 mod 10, 48 + n mod 10]"
proof -
  have "100 \<le> n div 10" "n div 10 < 1000" using assms by simp_all
  then have "dec (n div 10) = [48 + n div 10 div 100, 48 + n div 10 div 10 mod 10, 48 + n div 10 mod 10]"
    by (rule dec_3)
  with assms show ?thesis
    by (subst dec.simps) (simp del: dec.simps add: div_mult2_eq [symmetric])
qed

lemma zfill_2:
  assumes "n < 100"
  shows "zfill 2 (dec n) = [48 + n div 10, 48 + n mod 10]"
proof (cases "n < 10")
  case True
  then show ?thesis by (simp add: dec_1 zfill_def numeral_3_eq_3 numeral_2_eq_2 del: dec.simps)
next
  case False
  with assms show ?thesis by (simp add: dec_2 zfill_def numeral_3_eq_3 numeral_2_eq_2 del: dec.simps)
qed

lemma zfill_4:
  assumes "n < 10000"
  shows "zfill 4 (dec n) = [48 + n div 1000, 48 + n div 100 mod 10, 48 + n div 10 mod 10, 48 + n mod 10]"
proof -
  consider "n < 10" | "10 \<le> n" "n < 100" | "100 \<le> n" "n < 1000" | "1000 \<le> n"
    by linarith
  then show ?thesis
  proof cases
    case 1
    then show ?thesis by (simp add: dec_1 zfill_def numeral_3_eq_3 numeral_2_eq_2 del: dec.simps)
  next
    case 2
    then have "n div 10 < 10" by simp
    with 2 show ?thesis by (simp add: dec_2 zfill_def numeral_3_eq_3 numeral_2_eq_2 del: dec.simps)
  next
    case 3
    then have "n div 100 < 10" by simp
    with 3 show ?thesis by (simp add: dec_3 zfill_def numeral_3_eq_3 numeral_2_eq_2 del: dec.simps)
  next
    case 4
    with assms show ?thesis by (simp add: dec_4 zfill_def numeral_3_eq_3 numeral_2_eq_2 del: dec.simps)
  qed
qed

lemma two_digits_inj:
  fixes n m :: nat
  assumes "n div 10 = m div 10" "n mod 10 = m mod 10"
  shows "n = m"
  by (metis assms div_mult_mod_eq)

lemma digits_3:
  fixes n m :: nat
  assumes "n div 100 = m div 100" "n div 10 mod 10 = m div 10 mod 10" "n mod 10 = m mod 10"
  shows "n = m"
proof -
  have "n div 10 div 10 = m div 10 div 10"
    using assms(1) by (simp add: div_mult2_eq [symmetric])
  from this assms(2) have "n div 10 = m div 10"
    by (rule two_digits_inj)
  from this assms(3) show ?thesis
    by (rule two_digits_inj)
qed

lemma four_digits_inj:
  fixes n m :: nat
  assumes "n div 1000 = m div 1000" "n div 100 mod 10 = m div 100 mod 10"
    "n div 10 mod 10 = m div 10 mod 10" "n mod 10 = m mod 10"
  shows "n = m"
proof -
  have "n div 100 div 10 = m div 100 div 10"
    using assms(1) by (simp add: div_mult2_eq [symmetric])
  from this assms(2) have "n div 100 = m div 100"
    by (rule two_digits_inj)
  from this assms(3,4) show ?thesis
    by (rule digits_3)
qed

lemma str_date_digits:
  assumes "valid_date d"
  shows "str_date d =
     [48 + year d div 1000, 48 + year d div 100 mod 10, 48 + year d div 10 mod 10,
      48 + year d mod 10, 45, 48 + month d div 10, 48 + month d mod 10, 45,
      48 + day d div 10, 48 + day d mod 10]"
proof -
  have "year d < 10000" "month d < 100" "day d < 100"
    using assms by (simp_all add: valid_date_def)
  then show ?thesis
    by (simp only: str_date_def zfill_4 zfill_2 append.simps)
qed

lemma str_date_inj:
  assumes "valid_date d" "valid_date d'" "str_date d = str_date d'"
  shows "d = d'"
proof -
  have eq: "[48 + year d div 1000, 48 + year d div 100 mod 10, 48 + year d div 10 mod 10,
      48 + year d mod 10, 45, 48 + month d div 10, 48 + month d mod 10, 45,
      48 + day d div 10, 48 + day d mod 10] =
     [48 + year d' div 1000, 48 + year d' div 100 mod 10, 48 + year d' div 10 mod 10,
      48 + year d' mod 10, 45, 48 + month d' div 10, 48 + month d' mod 10, 45,
      48 + day d' div 10, 48 + day d' mod 10]"
    using assms(3) by (simp only: str_date_digits [OF assms(1)] str_date_digits [OF assms(2)])
  from eq have parts:
    "year d div 1000 = year d' div 1000" "year d div 100 mod 10 = year d' div 100 mod 10"
    "year d div 10 mod 10 = year d' div 10 mod 10" "year d mod 10 = year d' mod 10"
    "month d div 10 = month d' div 10" "month d mod 10 = month d' mod 10"
    "day d div 10 = day d' div 10" "day d mod 10 = day d' mod 10"
    by simp_all
  have y: "year d = year d'"
    using parts(1-4) by (rule four_digits_inj)
  have m: "month d = month d'"
    using parts(5,6) by (rule two_digits_inj)
  have dd: "day d = day d'"
    using parts(7,8) by (rule two_digits_inj)
  from y m dd show ?thesis by simp
qed

lemma form_row_inj:
  assumes "valid_form f" "valid_form f'" "form_row f = form_row f'"
  shows "f = f'"
proof -
  have "valid_date (opd_date f)" "valid_date (opd_date f')"
    using assms(1,2) by (simp_all add: valid_form_def)
  moreover have "str_date (opd_date f) = str_date (opd_date f')"
    using assms(3) by (simp add: form_row_def)
  ultimately have "opd_date f = opd_date f'"
    by (rule str_date_inj)
  with assms(3) show ?thesis
    by (simp add: form_row_def)
qed

lemma get_all_records_append_row:
  "get_all_records (append_row sh vals) =
     get_all_records sh @ [zip (header sh) (vals @ replicate (length (header sh) - length vals) (PyStr []))]"
  by (simp add: get_all_records_def append_row_def)

section \<open>Claims about the store and the inference request\<close>

text \<open>
  Claim C8: appending a record and then fetching all records yields, as the last row, the
  record submitted, with the eight fields in schema order. The fetched record carries the
  date as the ISO text written by line 73; on valid forms the row written determines the
  form, so nothing of the submission is lost. On "Save Entry" the script writes exactly
  this row.
\<close>

theorem append_then_fetch_returns_the_record:
  "(header sh = schema \<longrightarrow>
      get_all_records (append_row sh (form_row f)) =
        get_all_records sh @
        [[(py ''Date'', PyStr (str_date (opd_date f))), (py ''Name'', PyStr (patient_name f)),
          (py ''Age'', PyInt (age f)), (py ''Gender'', PyStr (gender f)),
          (py ''Prakriti'', PyStr (prakriti f)), (py ''Complaint'', PyStr (complaint f)),
          (py ''Diagnosis'', PyStr (diagnosis f)), (py ''FollowUp'', PyStr (follow_up f))]]) \<and>
   (valid_form f \<and> valid_form f' \<and> form_row f = form_row f' \<longrightarrow> f = f') \<and>
   (active_view v0 inp = EntryView \<and> submitted inp \<longrightarrow>
      sheet_after (render str_of llm sh v0 inp) = append_row sh (form_row (form inp)))"
proof (intro conjI impI)
  assume "header sh = schema"
  then show "get_all_records (append_row sh (form_row f)) =
        get_all_records sh @
        [[(py ''Date'', PyStr (str_date (opd_date f))), (py ''Name'', PyStr (patient_name f)),
          (py ''Age'', PyInt (age f)), (py ''Gender'', PyStr (gender f)),
          (py ''Prakriti'', PyStr (prakriti f)), (py ''Complaint'', PyStr (complaint f)),
          (py ''Diagnosis'', PyStr (diagnosis f)), (py ''FollowUp'', PyStr (follow_up f))]]"
    by (simp add: get_all_records_append_row) (simp add: schema_def form_row_def)
next
  assume "valid_form f \<and> valid_form f' \<and> form_row f = form_row f'"
  then show "f = f'"
    using form_row_inj by blast
next
  assume "active_view v0 inp = EntryView \<and> submitted inp"
  then show "sheet_after (render str_of llm sh v0 inp) = append_row sh (form_row (form inp))"
    by (simp add: render_entry)
qed

theorem append_then_fetch_witness:
  "last (get_all_records (append_row scenario_store (form_row (visit 3 ''Cold'' ''No'')))) =
     [(py ''Date'', PyStr (py ''2024-01-03'')), (py ''Name'', PyStr (py ''Asha'')),
      (py ''Age'', PyInt 30), (py ''Gender'', PyStr (py ''Female'')),
      (py ''Prakriti'', PyStr (py ''Vata'')), (py ''Complaint'', PyStr (py ''Cough'')),
      (py ''Diagnosis'', PyStr (py ''Cold'')), (py ''FollowUp'', PyStr (py ''No''))] \<and>
   length (get_all_records (append_row scenario_store (form_row (visit 3 ''Cold'' ''No'')))) = 4 \<and>
   valid_form (visit 3 ''Cold'' ''No'') \<and>
   sheet_after (render (\<lambda>js. []) (\<lambda>r. []) scenario_store EntryView
                 ((prompt_run [] False)\<lparr>submitted := True\<rparr>)) =
     append_row scenario_store (form_row (visit 3 ''Cold'' ''No''))"
proof -
  let ?f = "visit 3 ''Cold'' ''No''"
  let ?inp = "(prompt_run [] False)\<lparr>submitted := True\<rparr>"
  have h: "header scenario_store = schema"
    by (simp add: scenario_store_def)
  have v: "valid_form ?f"
    by (simp add: valid_form_def valid_date_def visit_def py_def)
  have a: "active_view EntryView ?inp = EntryView" "submitted ?inp" "form ?inp = ?f"
    by (simp_all add: active_view_def prompt_run_def)
  have n: "length (get_all_records scenario_store) = 3"
    by (simp add: get_all_records_def scenario_store_def)
  have fields: "str_date (opd_date ?f) = py ''2024-01-03''" "patient_name ?f = py ''Asha''"
    "age ?f = 30" "gender ?f = py ''Female''" "prakriti ?f = py ''Vata''"
    "complaint ?f = py ''Cough''" "diagnosis ?f = py ''Cold''" "follow_up ?f = py ''No''"
    by (simp_all add: visit_def str_date_def zfill_def py_def)
  show ?thesis
    using append_then_fetch_returns_the_record
        [of scenario_store ?f ?f EntryView ?inp "\<lambda>js. []" "\<lambda>r. []"] h v a n
    by (simp add: fields)
qed

text \<open>
  Claim C9, as stated: every generate action issues one request whose two messages come
  in the order system, then user. The script lists the user message first and the system
  message second.
\<close>

theorem request_messages_are_user_then_system:
  "map (\<lambda>r. map fst (messages r))
     (fst (generate_section (\<lambda>r. [py ''ok'']) (py ''p'') (py ''hi'') True)) =
   [[py ''user'', py ''system'']]"
  by (simp add: generate_section_def inference_request_def strip_def is_space_def py_def)

text \<open>
  Claim C9, amended: a generate action with an instruction that is not blank issues
  exactly one request, made of the model identifier gpt-4o-mini, the temperature 0.3 and
  two messages in the order user, then system; the user message is the built prompt and
  the system message is the fixed text of line 184. What is displayed is the content of
  the first choice of the response only.
\<close>

theorem generate_sends_one_request:
  "(\<not> list_all is_space u \<longrightarrow>
      fst (generate_section llm p u True) =
        [\<lparr>model = py ''gpt-4o-mini'',
          messages = [(py ''user'', p),
                      (py ''system'',
                       py ''You are assiting ayurvedic doctor for his OPD summary and analysis'')],
          temperature = 3 / 10\<rparr>]) \<and>
   (\<not> list_all is_space u \<and> llm (inference_request p) = first_choice # others \<longrightarrow>
      generate_section llm p u True =
        ([inference_request p], [TextArea (py ''AI Response'') first_choice], None)) \<and>
   (active_view v0 inp = OverviewView \<and> header sh = schema \<and>
    overview sh (selected_date inp) = Inr (opd_json, panel) \<and> generate inp \<and>
    \<not> list_all is_space (user_prompt inp) \<longrightarrow>
      requests (render str_of llm sh v0 inp) =
        [inference_request (build_opd_prompt str_of (get_all_records sh) (user_prompt inp))])"
proof (intro conjI impI)
  assume "\<not> list_all is_space u"
  then show "fst (generate_section llm p u True) =
        [\<lparr>model = py ''gpt-4o-mini'',
          messages = [(py ''user'', p),
                      (py ''system'',
                       py ''You are assiting ayurvedic doctor for his OPD summary and analysis'')],
          temperature = 3 / 10\<rparr>]"
    by (simp add: generate_section_def strip_empty_iff inference_request_def
        system_instruction_def split: list.splits)
next
  assume "\<not> list_all is_space u \<and> llm (inference_request p) = first_choice # others"
  then show "generate_section llm p u True =
        ([inference_request p], [TextArea (py ''AI Response'') first_choice], None)"
    by (simp add: generate_section_def strip_empty_iff)
next
  assume a: "active_view v0 inp = OverviewView \<and> header sh = schema \<and>
    overview sh (selected_date inp) = Inr (opd_json, panel) \<and> generate inp \<and>
    \<not> list_all is_space (user_prompt inp)"
  then have j: "opd_json = get_all_records sh"
    using overview_json [of sh "selected_date inp" opd_json panel] opd_json_is_all_records [of sh]
    by simp
  from a have "render str_of llm sh v0 inp =
           (let p = build_opd_prompt str_of opd_json (user_prompt inp);
                (reqs, drawn, err) = generate_section llm p (user_prompt inp) (generate inp)
            in \<lparr>view_after = OverviewView, sheet_after = sh, page = Panel panel # drawn,
                prompt = Some p, requests = reqs, raised = err\<rparr>)"
    by (intro render_overview) simp_all
  with a show "requests (render str_of llm sh v0 inp) =
        [inference_request (build_opd_prompt str_of (get_all_records sh) (user_prompt inp))]"
    by (simp add: Let_def j generate_section_def strip_empty_iff split: list.splits)
qed

theorem generate_sends_one_request_witness:
  "fst (generate_section (\<lambda>r. [py ''first'', py ''second'']) (py ''p'') (py ''hi'') True) =
     [\<lparr>model = py ''gpt-4o-mini'',
       messages = [(py ''user'', py ''p''),
                   (py ''system'',
                    py ''You are assiting ayurvedic doctor for his OPD summary and analysis'')],
       temperature = 3 / 10\<rparr>] \<and>
   generate_section (\<lambda>r. [py ''first'', py ''second'']) (py ''p'') (py ''hi'') True =
     ([inference_request (py ''p'')], [TextArea (py ''AI Response'') (py ''first'')], None) \<and>
   requests (render (\<lambda>js. dec (length js)) (\<lambda>r. [py ''first'', py ''second'']) scenario_store
               OverviewView (prompt_run (py ''hi'') True)) =
     [inference_request
        (build_opd_prompt (\<lambda>js. dec (length js)) (get_all_records scenario_store) (py ''hi''))]"
proof -
  let ?inp = "prompt_run (py ''hi'') True"
  let ?llm = "\<lambda>r :: request. [py ''first'', py ''second'']"
  have n: "\<not> list_all is_space (py ''hi'')"
    by (simp add: is_space_def py_def)
  have c: "?llm (inference_request (py ''p'')) = py ''first'' # [py ''second'']"
    by simp
  have v: "active_view OverviewView ?inp = OverviewView" "generate ?inp"
    "user_prompt ?inp = py ''hi''"
    by (simp_all add: active_view_def prompt_run_def)
  have h: "header scenario_store = schema"
    by (simp add: scenario_store_def)
  obtain js snap where o: "overview scenario_store (selected_date ?inp) = Inr (js, Shown snap)"
    using overview_shows [OF scenario_stored scenario_rows] by blast
  show ?thesis
    using generate_sends_one_request
        [of "py ''hi''" ?llm "py ''p''" "py ''first''" "[py ''second'']" OverviewView ?inp
          scenario_store js "Shown snap" "\<lambda>js. dec (length js)"]
      n c v h o
    by (metis (no_types, lifting))
qed

end
